theory Spec2Isabelle
  imports Complex_Main
begin

section \<open>JavaScript values shared by the converters\<close>

text \<open>
  An \<^verbatim>\<open>await\<close>ed promise either rejects (the \<^verbatim>\<open>await\<close> throws) or yields a value:
  the settled outcome is a sum, \<open>Inl\<close> the thrown error. Only the message of an error is
  ever read (\<^verbatim>\<open>processFiles\<close> shows it); the texts of engine-made messages are those of the
  engine.
\<close>

datatype js_error = Error string | TypeError string

type_synonym 'a promise = "js_error + 'a"

fun message :: "js_error \<Rightarrow> string" where
  "message (Error m) = m"
| "message (TypeError m) = m"

text \<open>
  A selected file: its name, and what \<^verbatim>\<open>readFileAsArrayBuffer(file)\<close> and
  \<^verbatim>\<open>readFileAsDataURL(file)\<close> settle to.
\<close>

record js_file =
  file_name :: string
  file_size :: nat
  file_bytes :: "nat list promise"
  file_dataURL :: "string promise"

text \<open>
  Numbers. The claims about coordinates are claims of exact arithmetic, so a finite number is a
  rational; the rounding of IEEE doubles is not modelled. What is modelled of IEEE arithmetic is
  division by zero, which JavaScript does not raise: it yields an infinity or NaN, and every
  comparison with NaN is false.
\<close>

datatype jsnum = Num rat | PosInfinity | NegInfinity | NaN





text \<open>
  The image handed to \<^verbatim>\<open>addImage\<close>: a data URL read from a file, or
  \<^verbatim>\<open>canvas.toDataURL(mime, quality)\<close> of a canvas holding the given pixels.
\<close>

datatype image_data = FileURL string | CanvasURL "nat list" string rat

text \<open>
  A jsPDF document is the list of its pages, each the list of what was drawn on it:
  \<^verbatim>\<open>new jsPDF()\<close> has one empty page, \<^verbatim>\<open>addPage\<close> appends an empty page, and
  \<^verbatim>\<open>text\<close> and \<^verbatim>\<open>addImage\<close> draw on the last page.
\<close>

datatype draw_op =
    Text string rat rat
  | Image image_data string jsnum jsnum jsnum jsnum

type_synonym jsPDF = "draw_op list list"

definition new_jsPDF :: jsPDF where
  "new_jsPDF = [[]]"

definition addPage :: "jsPDF \<Rightarrow> jsPDF" where
  "addPage doc = doc @ [[]]"

fun draw :: "jsPDF \<Rightarrow> draw_op \<Rightarrow> jsPDF" where
  "draw [] d = [[d]]"
| "draw doc d = butlast doc @ [last doc @ [d]]"

definition doc_text :: "jsPDF \<Rightarrow> string \<Rightarrow> rat \<Rightarrow> rat \<Rightarrow> jsPDF" where
  "doc_text doc line x y = draw doc (Text line x y)"


text \<open>
  What a tool returns: \<^verbatim>\<open>[{ name, size, url }]\<close>. \<^verbatim>\<open>size\<close> and \<^verbatim>\<open>url\<close> are the
  browser's byte count of the blob and a handle to it, so an artifact is its name and its blob.
\<close>

datatype blob =
    HtmlBlob string
  | PdfBlob jsPDF
  | ImageBlob image_data
  | BodyBlob "nat list"

record artifact =
  art_name :: string
  art_blob :: blob

record state =
  files :: "js_file list"
  currentTool :: string

text \<open>
  With no file selected \<^verbatim>\<open>state.files[0]\<close> is \<^verbatim>\<open>undefined\<close>. \<^verbatim>\<open>readFileAsArrayBuffer\<close> is not
  in the sources; it is taken to hand its argument to \<^verbatim>\<open>FileReader.readAsArrayBuffer\<close>, which
  throws a TypeError on anything but a Blob, so that the \<^verbatim>\<open>await\<close> raises. \<^verbatim>\<open>processFiles\<close>
  calls no tool with an empty selection (line 14).
\<close>

definition no_file :: js_error where
  "no_file = TypeError ''Failed to execute 'readAsArrayBuffer' on 'FileReader': parameter 1 is not of type 'Blob'.''"

section \<open>wordToPDF (src/js/converters.js, lines 43-71)\<close>

text \<open>
  The libraries the function calls are parameters: \<^verbatim>\<open>mammoth.extractRawText\<close> (may reject),
  \<^verbatim>\<open>new TextDecoder().decode\<close> and \<^verbatim>\<open>doc.splitTextToSize(text, 180)\<close>.
\<close>

record word_libs =
  extractRawText :: "nat list \<Rightarrow> string promise"
  decode :: "nat list \<Rightarrow> string"
  splitTextToSize :: "string \<Rightarrow> rat \<Rightarrow> string list"

text \<open>
  \<^verbatim>\<open>name.replace(/\.(doc|docx)$/i, '.pdf')\<close>: the pattern is anchored at the end of the name
  and ignores case, so it matches exactly a final \<^verbatim>\<open>.doc\<close> or \<^verbatim>\<open>.docx\<close> in any mix of cases.
\<close>

definition ci :: "char \<Rightarrow> char \<Rightarrow> char \<Rightarrow> bool" where
  "ci lo up c = (c = lo \<or> c = up)"

fun is_dot_doc :: "string \<Rightarrow> bool" where
  "is_dot_doc [c1, c2, c3, c4] =
     (c1 = CHR ''.'' \<and> ci (CHR ''d'') (CHR ''D'') c2 \<and> ci (CHR ''o'') (CHR ''O'') c3
      \<and> ci (CHR ''c'') (CHR ''C'') c4)"
| "is_dot_doc s = False"

fun is_dot_docx :: "string \<Rightarrow> bool" where
  "is_dot_docx [c1, c2, c3, c4, c5] =
     (is_dot_doc [c1, c2, c3, c4] \<and> ci (CHR ''x'') (CHR ''X'') c5)"
| "is_dot_docx s = False"

definition replace_doc_ext :: "string \<Rightarrow> string" where
  "replace_doc_ext n =
     (let k = length n in
      if 5 \<le> k \<and> is_dot_docx (drop (k - 5) n) then take (k - 5) n @ ''.pdf''
      else if 4 \<le> k \<and> is_dot_doc (drop (k - 4) n) then take (k - 4) n @ ''.pdf''
      else n)"

text \<open>
  The \<^verbatim>\<open>forEach\<close> over the lines (lines 62-66); \<open>y\<close> is the variable the callback updates.
\<close>

fun wordToPDF_lines :: "string list \<Rightarrow> rat \<Rightarrow> jsPDF \<Rightarrow> jsPDF" where
  "wordToPDF_lines [] y doc = doc"
| "wordToPDF_lines (line # rest) y doc =
     (let (doc1, y1) = (if y > 280 then (addPage doc, 20) else (doc, y))
      in wordToPDF_lines rest (y1 + 7) (doc_text doc1 line 15 y1))"

definition wordToPDF :: "word_libs \<Rightarrow> state \<Rightarrow> artifact list promise" where
  "wordToPDF libs st =
     (case files st of
        [] \<Rightarrow> Inl no_file
      | file # _ \<Rightarrow>
          (case file_bytes file of
             Inl e \<Rightarrow> Inl e
           | Inr arr \<Rightarrow>
               (let txt = (case extractRawText libs arr of Inl e \<Rightarrow> decode libs arr | Inr v \<Rightarrow> v);
                    lines = splitTextToSize libs txt 180;
                    doc = wordToPDF_lines lines 20 new_jsPDF
                in Inr [\<lparr>art_name = replace_doc_ext (file_name file), art_blob = PdfBlob doc\<rparr>])))"

definition drawn :: "jsPDF \<Rightarrow> draw_op list" where
  "drawn doc = concat doc"

lemma drawn_draw: "drawn (draw doc d) = drawn doc @ [d]"
proof (cases doc)
  case Nil
  then show ?thesis by (simp add: drawn_def)
next
  case (Cons p ps)
  then have ne: "doc \<noteq> []" by simp
  have "concat (butlast doc @ [last doc @ [d]]) = concat (butlast doc @ [last doc]) @ [d]"
    by simp
  also have "\<dots> = concat doc @ [d]"
    using ne by simp
  finally show ?thesis using Cons by (simp add: drawn_def)
qed

lemma drawn_addPage: "drawn (addPage doc) = drawn doc"
  by (simp add: drawn_def addPage_def)

lemma drawn_text: "drawn (doc_text doc l x y) = drawn doc @ [Text l x y]"
  by (simp add: doc_text_def drawn_draw)

fun y_ok :: "draw_op \<Rightarrow> bool" where
  "y_ok (Text l x y) = (x = 15 \<and> 20 \<le> y \<and> y \<le> 280)"
| "y_ok (Image d f x y w h) = True"

lemma lines_inv:
  "20 \<le> y \<Longrightarrow> y \<le> 287 \<Longrightarrow> list_all y_ok (drawn doc)
     \<Longrightarrow> list_all y_ok (drawn (wordToPDF_lines ls y doc))"
proof (induction ls arbitrary: y doc)
  case Nil
  then show ?case by simp
next
  case (Cons l ls)
  show ?case
  proof (cases "y > 280")
    case True
    have "list_all y_ok (drawn (doc_text (addPage doc) l 15 20))"
      using Cons.prems(3) by (simp add: drawn_text drawn_addPage)
    then have "list_all y_ok (drawn (wordToPDF_lines ls (20 + 7) (doc_text (addPage doc) l 15 20)))"
      by (intro Cons.IH) simp_all
    then show ?thesis using True by simp
  next
    case False
    have "list_all y_ok (drawn (doc_text doc l 15 y))"
      using Cons.prems False by (simp add: drawn_text)
    then have "list_all y_ok (drawn (wordToPDF_lines ls (y + 7) (doc_text doc l 15 y)))"
      using Cons.prems False by (intro Cons.IH) simp_all
    then show ?thesis using False by simp
  qed
qed

lemma lines_texts:
  "map (\<lambda>d. case d of Text l x y \<Rightarrow> l | _ \<Rightarrow> []) (drawn (wordToPDF_lines ls y doc))
     = map (\<lambda>d. case d of Text l x y \<Rightarrow> l | _ \<Rightarrow> []) (drawn doc) @ ls"
  by (induction ls arbitrary: y doc) (simp_all add: drawn_text drawn_addPage)

text \<open>
  Claim C9. Every line that \<^verbatim>\<open>wordToPDF\<close> draws is placed at x = 15 and at a y-coordinate
  between 20 and 280 inclusive, on whatever page it lands: once the running y has passed 280 the
  next line opens a new page and is drawn at y = 20.
\<close>

theorem wordToPDF_line_positions:
  assumes "wordToPDF libs st = Inr arts"
    and "a \<in> set arts" and "art_blob a = PdfBlob doc"
    and "page \<in> set doc" and "Text line x y \<in> set page"
  shows "x = 15 \<and> 20 \<le> y \<and> y \<le> 280"
proof -
  obtain f0 fs arr where f: "files st = f0 # fs" and b: "file_bytes f0 = Inr arr"
    using assms(1) by (auto simp: wordToPDF_def split: list.splits sum.splits)
  define tx where "tx = (case extractRawText libs arr of Inl e \<Rightarrow> decode libs arr | Inr v \<Rightarrow> v)"
  have "arts = [\<lparr>art_name = replace_doc_ext (file_name f0),
                 art_blob = PdfBlob (wordToPDF_lines (splitTextToSize libs tx 180) 20 new_jsPDF)\<rparr>]"
    using assms(1) f b by (simp add: wordToPDF_def tx_def Let_def)
  with assms(2,3) have doc: "doc = wordToPDF_lines (splitTextToSize libs tx 180) 20 new_jsPDF"
    by auto
  have "list_all y_ok (drawn new_jsPDF)" by (simp add: drawn_def new_jsPDF_def)
  then have "list_all y_ok (drawn doc)" unfolding doc by (intro lines_inv) simp_all
  moreover have "Text line x y \<in> set (drawn doc)"
    using assms(4,5) by (auto simp: drawn_def)
  ultimately have "y_ok (Text line x y)" by (auto simp: list_all_iff)
  then show ?thesis by simp
qed

definition sample_libs :: word_libs where
  "sample_libs = \<lparr>extractRawText = (\<lambda>b. Inl (Error ''not a docx'')), decode = (\<lambda>b. ''hi''),
            splitTextToSize = (\<lambda>t w. replicate 39 t)\<rparr>"

definition sample_doc_file :: js_file where
  "sample_doc_file = \<lparr>file_name = ''Note.DOCX'', file_size = 2, file_bytes = Inr [104, 105],
     file_dataURL = Inr ''data:''\<rparr>"

definition sample_word_pdf :: jsPDF where
  "sample_word_pdf = [map (\<lambda>k. Text ''hi'' 15 (20 + 7 * of_nat k)) [0..<38], [Text ''hi'' 15 20]]"

theorem wordToPDF_line_positions_witness:
  "wordToPDF sample_libs \<lparr>files = [sample_doc_file], currentTool = ''word-to-pdf''\<rparr>
     = Inr [\<lparr>art_name = ''Note.pdf'', art_blob = PdfBlob sample_word_pdf\<rparr>]
   \<and> Text ''hi'' 15 20 \<in> set (sample_word_pdf ! 1)
   \<and> (15::rat) = 15 \<and> (20::rat) \<le> 20 \<and> (20::rat) \<le> 280"
proof -
  have run: "wordToPDF sample_libs \<lparr>files = [sample_doc_file], currentTool = ''word-to-pdf''\<rparr>
     = Inr [\<lparr>art_name = ''Note.pdf'', art_blob = PdfBlob sample_word_pdf\<rparr>]"
    by code_simp
  have pg: "sample_word_pdf ! 1 \<in> set sample_word_pdf" by (simp add: sample_word_pdf_def)
  have tx: "Text ''hi'' 15 20 \<in> set (sample_word_pdf ! 1)" by (simp add: sample_word_pdf_def)
  from wordToPDF_line_positions [OF run _ _ pg tx, of "\<lparr>art_name = ''Note.pdf'', art_blob = PdfBlob sample_word_pdf\<rparr>"]
  have "(15::rat) = 15 \<and> (20::rat) \<le> 20 \<and> (20::rat) \<le> 280" by simp
  with run tx show ?thesis by simp
qed

section \<open>imagesToPDF (src/js/converters.js, lines 74-97; the same text in src/unnamed/part_000)\<close>
















section \<open>JavaScript strings\<close>

text \<open>
  Strings are byte strings (UTF-8); the functions below only look for ASCII characters, which
  occur in UTF-8 exactly where they occur in the UTF-16 string of the source.
  \<open>string_of_nat\<close> is the decimal text a template literal \<^verbatim>\<open>${i}\<close> gives a loop counter,
  \<open>join\<close> is \<^verbatim>\<open>Array.prototype.join\<close>, and \<open>replace\<close> is \<^verbatim>\<open>String.prototype.replace\<close> with a
  string pattern: only the first occurrence is replaced, and in the replacement text
  \<^verbatim>\<open>$$\<close>, \<^verbatim>\<open>$&\<close>, the dollar-backtick and the dollar-apostrophe stand for a dollar sign, the
  match, the text before it and the text after it.
\<close>

definition digit_char :: "nat \<Rightarrow> char" where
  "digit_char d = char_of (48 + d)"

function string_of_nat :: "nat \<Rightarrow> string" where
  "string_of_nat n = (if n < 10 then [digit_char n] else string_of_nat (n div 10) @ [digit_char (n mod 10)])"
  by pat_completeness auto
termination
  by (relation "measure id") auto

declare string_of_nat.simps [simp del]

fun join :: "string list \<Rightarrow> string \<Rightarrow> string" where
  "join [] sep = []"
| "join [x] sep = x"
| "join (x # y # ys) sep = x @ sep @ join (y # ys) sep"

fun starts_with :: "string \<Rightarrow> string \<Rightarrow> bool" where
  "starts_with [] s = True"
| "starts_with (p # ps) [] = False"
| "starts_with (p # ps) (c # cs) = (p = c \<and> starts_with ps cs)"

fun split_first :: "string \<Rightarrow> string \<Rightarrow> (string \<times> string) option" where
  "split_first pat [] = (if pat = [] then Some ([], []) else None)"
| "split_first pat (c # cs) =
     (if starts_with pat (c # cs) then Some ([], drop (length pat) (c # cs))
      else map_option (\<lambda>(b, a). (c # b, a)) (split_first pat cs))"

fun get_substitution :: "string \<Rightarrow> string \<Rightarrow> string \<Rightarrow> string \<Rightarrow> string" where
  "get_substitution m b a [] = []"
| "get_substitution m b a [c] = [c]"
| "get_substitution m b a (c # d # r) =
     (if c = CHR ''$'' \<and> d = CHR ''$'' then CHR ''$'' # get_substitution m b a r
      else if c = CHR ''$'' \<and> d = CHR ''&'' then m @ get_substitution m b a r
      else if c = CHR ''$'' \<and> d = CHR 0x60 then b @ get_substitution m b a r
      else if c = CHR ''$'' \<and> d = CHR 0x27 then a @ get_substitution m b a r
      else c # get_substitution m b a (d # r))"

definition replace :: "string \<Rightarrow> string \<Rightarrow> string \<Rightarrow> string" where
  "replace s pat tmpl =
     (case split_first pat s of
        None \<Rightarrow> s
      | Some (b, a) \<Rightarrow> b @ get_substitution pat b a tmpl @ a)"

section \<open>pdf.js documents\<close>

text \<open>
  What the converters use of pdf.js: a loaded document has \<^verbatim>\<open>numPages\<close> and \<^verbatim>\<open>getPage(i)\<close>;
  a page has \<^verbatim>\<open>getTextContent()\<close>, of which only the \<^verbatim>\<open>str\<close> of each item is read, and
  \<^verbatim>\<open>render\<close>, which fills a canvas with the pixels of the page at the scale of the viewport.
  Each is awaited, so each may reject. The environment of the functions holds
  \<^verbatim>\<open>pdfjsLib.getDocument\<close>, the \<^verbatim>\<open>fetch\<close> of a data URL, the value of the
  \<^verbatim>\<open>outputFormat\<close> element when there is one, and the page size of \<^verbatim>\<open>new jsPDF()\<close>.
\<close>

record pdf_page =
  getTextContent :: "string list promise"
  render :: "rat \<Rightarrow> nat list promise"

record pdf_doc =
  numPages :: nat
  getPage :: "nat \<Rightarrow> pdf_page promise"

record pdf_env =
  getDocument :: "nat list \<Rightarrow> pdf_doc promise"
  fetch_dataURL :: "image_data \<Rightarrow> blob promise"
  outputFormat :: "string option"
  jsPDF_width :: rat
  jsPDF_height :: rat

section \<open>pdfToWord (src/js/converters.js, lines 23-40)\<close>

definition html_head :: string where
  \<open>html_head = ''<!DOCTYPE html><html><head><meta charset="UTF-8"><style>body{font-family:Arial;margin:40px;}.page{page-break-after:always;margin-bottom:30px;}</style></head><body>''\<close>

definition page_section :: "nat \<Rightarrow> string list \<Rightarrow> string" where
  \<open>page_section i items =
     ''<div class="page"><h3>Sayfa '' @ string_of_nat i @ ''</h3><p>'' @ join items '' '' @ ''</p></div>''\<close>

function pdfToWord_pages :: "pdf_doc \<Rightarrow> nat \<Rightarrow> string \<Rightarrow> string promise" where
  "pdfToWord_pages pdf i html =
     (if i \<le> numPages pdf then
        (case getPage pdf i of
           Inl e \<Rightarrow> Inl e
         | Inr page \<Rightarrow>
             (case getTextContent page of
                Inl e \<Rightarrow> Inl e
              | Inr items \<Rightarrow> pdfToWord_pages pdf (i + 1) (html @ page_section i items)))
      else Inr html)"
  by pat_completeness auto
termination
  by (relation "measure (\<lambda>(pdf, i, html). numPages pdf + 1 - i)") auto

declare pdfToWord_pages.simps [simp del]

definition pdfToWord :: "pdf_env \<Rightarrow> state \<Rightarrow> artifact list promise" where
  "pdfToWord env st =
     (case files st of
        [] \<Rightarrow> Inl no_file
      | file # _ \<Rightarrow>
          (case file_bytes file of
             Inl e \<Rightarrow> Inl e
           | Inr arr \<Rightarrow>
               (case getDocument env arr of
                  Inl e \<Rightarrow> Inl e
                | Inr pdf \<Rightarrow>
                    (case pdfToWord_pages pdf 1 html_head of
                       Inl e \<Rightarrow> Inl e
                     | Inr html \<Rightarrow>
                         Inr [\<lparr>art_name = replace (file_name file) ''.pdf'' ''.html'',
                               art_blob = HtmlBlob (html @ ''</body></html>'')\<rparr>]))))"

section \<open>pdfToWord (src/unnamed/part_000, lines 6-23)\<close>

function pdfToWord_pages_part_000 :: "pdf_doc \<Rightarrow> nat \<Rightarrow> string \<Rightarrow> string promise" where
  "pdfToWord_pages_part_000 pdf i html =
     (if i \<le> numPages pdf then
        (case getPage pdf i of
           Inl e \<Rightarrow> Inl e
         | Inr page \<Rightarrow>
             (case getTextContent page of
                Inl e \<Rightarrow> Inl e
              | Inr items \<Rightarrow> pdfToWord_pages_part_000 pdf (i + 1) (html @ page_section i items)))
      else Inr html)"
  by pat_completeness auto
termination
  by (relation "measure (\<lambda>(pdf, i, html). numPages pdf + 1 - i)") auto

declare pdfToWord_pages_part_000.simps [simp del]

definition pdfToWord_part_000 :: "pdf_env \<Rightarrow> state \<Rightarrow> artifact list promise" where
  "pdfToWord_part_000 env st =
     (case files st of
        [] \<Rightarrow> Inl no_file
      | file # _ \<Rightarrow>
          (case file_bytes file of
             Inl e \<Rightarrow> Inl e
           | Inr arr \<Rightarrow>
               (case getDocument env arr of
                  Inl e \<Rightarrow> Inl e
                | Inr pdf \<Rightarrow>
                    (case pdfToWord_pages_part_000 pdf 1 html_head of
                       Inl e \<Rightarrow> Inl e
                     | Inr html \<Rightarrow>
                         Inr [\<lparr>art_name = replace (file_name file) ''.pdf'' ''.html'',
                               art_blob = HtmlBlob (html @ ''</body></html>'')\<rparr>]))))"

lemma pages_same: "pdfToWord_pages_part_000 pdf i html = pdfToWord_pages pdf i html"
proof (induction pdf i html rule: pdfToWord_pages.induct)
  case (1 pdf i html)
  then show ?case
    by (subst pdfToWord_pages_part_000.simps, subst pdfToWord_pages.simps)
       (auto split: sum.splits)
qed

text \<open>
  Claim C10. The \<^verbatim>\<open>pdfToWord\<close> of src/js/converters.js and the \<^verbatim>\<open>pdfToWord\<close> of
  src/unnamed/part_000 are extensionally equal: on every file list and every pdf.js behaviour
  both raise the same error or return the same artifact, with the same name and the same HTML.
\<close>

theorem pdfToWord_versions_agree: "pdfToWord_part_000 env st = pdfToWord env st"
  by (simp add: pdfToWord_part_000_def pdfToWord_def pages_same split: list.splits sum.splits)

section \<open>What pdfToWord writes\<close>

text \<open>The text runs of page \<open>i\<close>, when the page and its text content are delivered.\<close>

definition page_items :: "pdf_doc \<Rightarrow> nat \<Rightarrow> string list option" where
  "page_items pdf i =
     (case getPage pdf i of
        Inl e \<Rightarrow> None
      | Inr page \<Rightarrow> (case getTextContent page of Inl e \<Rightarrow> None | Inr items \<Rightarrow> Some items))"

lemma pdfToWord_pages_all:
  "\<forall>k. i \<le> k \<and> k \<le> numPages pdf \<longrightarrow> page_items pdf k \<noteq> None \<Longrightarrow>
   pdfToWord_pages pdf i html =
     Inr (html @ concat (map (\<lambda>k. page_section k (the (page_items pdf k))) [i..<numPages pdf + 1]))"
proof (induction pdf i html rule: pdfToWord_pages.induct)
  case (1 pdf i html)
  show ?case
  proof (cases "i \<le> numPages pdf")
    case False
    then show ?thesis by (subst pdfToWord_pages.simps) simp
  next
    case True
    with "1.prems" obtain items where it: "page_items pdf i = Some items" by blast
    then obtain page where pg: "getPage pdf i = Inr page" "getTextContent page = Inr items"
      by (auto simp: page_items_def split: sum.splits)
    have rest: "\<forall>k. i + 1 \<le> k \<and> k \<le> numPages pdf \<longrightarrow> page_items pdf k \<noteq> None"
      using "1.prems" by simp
    have up: "[i..<numPages pdf + 1] = i # [i + 1..<numPages pdf + 1]"
      using True by (simp add: upt_conv_Cons)
    have "pdfToWord_pages pdf i html = pdfToWord_pages pdf (i + 1) (html @ page_section i items)"
      using True pg by (subst pdfToWord_pages.simps) simp
    also have "\<dots> = Inr ((html @ page_section i items) @
        concat (map (\<lambda>k. page_section k (the (page_items pdf k))) [i + 1..<numPages pdf + 1]))"
      using "1.IH" [OF True pg rest] .
    finally show ?thesis
      by (simp only: up list.map concat.simps append_assoc it option.sel)
  qed
qed

text \<open>Whitespace-only text, and a document stripped of such runs, in the words of the specification.\<close>

definition is_space :: "char \<Rightarrow> bool" where
  "is_space c = (c = CHR '' '' \<or> c = CHR 0x09 \<or> c = CHR 0x0A \<or> c = CHR 0x0D)"

definition blank :: "string \<Rightarrow> bool" where
  "blank s = list_all is_space s"

definition without_blank_runs :: "pdf_doc \<Rightarrow> pdf_doc" where
  "without_blank_runs pdf =
     pdf\<lparr>getPage := (\<lambda>i. case getPage pdf i of
          Inl e \<Rightarrow> Inl e
        | Inr page \<Rightarrow> Inr (page\<lparr>getTextContent :=
            (case getTextContent page of Inl e \<Rightarrow> Inl e
             | Inr items \<Rightarrow> Inr (filter (\<lambda>s. \<not> blank s) items))\<rparr>))\<rparr>"

definition one_page_pdf :: "string list \<Rightarrow> pdf_doc" where
  "one_page_pdf items = \<lparr>numPages = 1,
     getPage = (\<lambda>i. Inr \<lparr>getTextContent = Inr items, render = (\<lambda>s. Inr [i])\<rparr>)\<rparr>"

definition pdfjs :: "pdf_doc \<Rightarrow> pdf_env" where
  "pdfjs pdf = \<lparr>getDocument = (\<lambda>b. Inr pdf), fetch_dataURL = (\<lambda>u. Inr (ImageBlob u)),
     outputFormat = None, jsPDF_width = 210, jsPDF_height = 297\<rparr>"

definition pdf_file :: "string \<Rightarrow> js_file" where
  "pdf_file n = \<lparr>file_name = n, file_size = 1, file_bytes = Inr [37], file_dataURL = Inr ''data:''\<rparr>"

text \<open>
  The claim as the specification states it, that runs of empty or whitespace-only text never
  reach the output, fails: a page with the runs \<^verbatim>\<open>a\<close>, one space, \<^verbatim>\<open>b\<close> gives the paragraph
  \<^verbatim>\<open>a   b\<close>, which holds the whitespace run between two separators; with the blank runs
  removed beforehand (\<open>without_blank_runs\<close>, the filter of the specification) it would be
  \<^verbatim>\<open>a b\<close>.
\<close>

theorem pdfToWord_keeps_blank_runs:
  \<open>pdfToWord (pdfjs (one_page_pdf [''a'', '' '', ''b''])) \<lparr>files = [pdf_file ''x.pdf''], currentTool = ''pdf-to-word''\<rparr>
     = Inr [\<lparr>art_name = ''x.html'', art_blob = HtmlBlob (html_head @
          ''<div class="page"><h3>Sayfa 1</h3><p>a   b</p></div></body></html>'')\<rparr>]
   \<and> pdfToWord (pdfjs (without_blank_runs (one_page_pdf [''a'', '' '', ''b''])))
         \<lparr>files = [pdf_file ''x.pdf''], currentTool = ''pdf-to-word''\<rparr>
     = Inr [\<lparr>art_name = ''x.html'', art_blob = HtmlBlob (html_head @
          ''<div class="page"><h3>Sayfa 1</h3><p>a b</p></div></body></html>'')\<rparr>]\<close>
  by code_simp

lemma join_length:
  "length (join items sep) = sum_list (map length items) + (length items - 1) * length sep"
  by (induction items sep rule: join.induct) simp_all

text \<open>
  Claim C5, as the code has it. \<^verbatim>\<open>pdfToWord\<close> filters nothing: when the document loads and every
  page delivers its text content, the paragraph of page \<open>k\<close> is the \<^verbatim>\<open>str\<close> of every text run
  of the page, empty and whitespace-only runs included, in order and joined by single spaces
  (so its length is the total length of the runs plus one per gap), under the heading
  \<^verbatim>\<open>Sayfa k\<close>.
\<close>

theorem pdfToWord_writes_every_run:
  assumes "files st = f # fs" and "file_bytes f = Inr arr" and "getDocument env arr = Inr pdf"
    and "\<forall>k. 1 \<le> k \<and> k \<le> numPages pdf \<longrightarrow> page_items pdf k \<noteq> None"
  shows "pdfToWord env st =
           Inr [\<lparr>art_name = replace (file_name f) ''.pdf'' ''.html'',
                 art_blob = HtmlBlob (html_head
                   @ concat (map (\<lambda>k. page_section k (the (page_items pdf k))) [1..<numPages pdf + 1])
                   @ ''</body></html>'')\<rparr>]
         \<and> (\<forall>items. length (join items '' '') = sum_list (map length items) + (length items - 1))"
  using assms(1-3) pdfToWord_pages_all [OF assms(4), of html_head]
  by (simp add: pdfToWord_def join_length)

theorem pdfToWord_writes_every_run_witness:
  "files \<lparr>files = [pdf_file ''x.pdf''], currentTool = ''pdf-to-word''\<rparr> = pdf_file ''x.pdf'' # []
   \<and> file_bytes (pdf_file ''x.pdf'') = Inr [37]
   \<and> getDocument (pdfjs (one_page_pdf [''a'', [], ''b''])) [37] = Inr (one_page_pdf [''a'', [], ''b''])
   \<and> page_items (one_page_pdf [''a'', [], ''b'']) 1 = Some [''a'', [], ''b'']
   \<and> pdfToWord (pdfjs (one_page_pdf [''a'', [], ''b'']))
         \<lparr>files = [pdf_file ''x.pdf''], currentTool = ''pdf-to-word''\<rparr>
       = Inr [\<lparr>art_name = replace ''x.pdf'' ''.pdf'' ''.html'',
               art_blob = HtmlBlob (html_head @ page_section 1 [''a'', [], ''b''] @ ''</body></html>'')\<rparr>]"
proof -
  let ?pdf = "one_page_pdf [''a'', [], ''b'']"
  let ?st = "\<lparr>files = [pdf_file ''x.pdf''], currentTool = ''pdf-to-word''\<rparr>"
  have h1: "files ?st = pdf_file ''x.pdf'' # []" by simp
  have h2: "file_bytes (pdf_file ''x.pdf'') = Inr [37]" by (simp add: pdf_file_def)
  have h3: "getDocument (pdfjs ?pdf) [37] = Inr ?pdf" by (simp add: pdfjs_def)
  have it: "page_items ?pdf 1 = Some [''a'', [], ''b'']"
    by (simp add: page_items_def one_page_pdf_def)
  have h4: "\<forall>k. 1 \<le> k \<and> k \<le> numPages ?pdf \<longrightarrow> page_items ?pdf k \<noteq> None"
    by (simp add: page_items_def one_page_pdf_def)
  have n: "numPages ?pdf = 1" by (simp add: one_page_pdf_def)
  from pdfToWord_writes_every_run [OF h1 h2 h3 h4]
  have "pdfToWord (pdfjs ?pdf) ?st
       = Inr [\<lparr>art_name = replace ''x.pdf'' ''.pdf'' ''.html'',
               art_blob = HtmlBlob (html_head @ page_section 1 [''a'', [], ''b''] @ ''</body></html>'')\<rparr>]"
    using it by (simp add: n pdf_file_def)
  with h1 h2 h3 it show ?thesis by simp
qed

section \<open>pdfToImages (src/js/converters.js, lines 100-131)\<close>

text \<open>
  \<^verbatim>\<open>document.getElementById('outputFormat')?.value || 'jpg'\<close>: a missing element and an empty
  value both give \<^verbatim>\<open>jpg\<close>. \<^verbatim>\<open>cleanupCanvas\<close>, \<^verbatim>\<open>updateProgress\<close> and \<^verbatim>\<open>pdf.destroy()\<close>
  touch the canvas, the progress bar and the worker only, and are left out of the result.
\<close>

definition output_fmt :: "pdf_env \<Rightarrow> string" where
  "output_fmt env = (case outputFormat env of None \<Rightarrow> ''jpg'' | Some v \<Rightarrow> if v = [] then ''jpg'' else v)"

definition image_result :: "string \<Rightarrow> nat \<Rightarrow> blob \<Rightarrow> artifact" where
  "image_result fmt i b = \<lparr>art_name = ''sayfa_'' @ string_of_nat i @ ''.'' @ fmt, art_blob = b\<rparr>"

definition canvas_url :: "string \<Rightarrow> nat list \<Rightarrow> image_data" where
  "canvas_url fmt pixels =
     CanvasURL pixels (if fmt = ''png'' then ''image/png'' else ''image/jpeg'') (85 / 100)"

function pdfToImages_pages ::
  "pdf_env \<Rightarrow> pdf_doc \<Rightarrow> string \<Rightarrow> nat \<Rightarrow> artifact list \<Rightarrow> artifact list promise" where
  "pdfToImages_pages env pdf fmt i results =
     (if i \<le> numPages pdf then
        (case getPage pdf i of
           Inl e \<Rightarrow> Inl e
         | Inr page \<Rightarrow>
             (case render page 1 of
                Inl e \<Rightarrow> Inl e
              | Inr pixels \<Rightarrow>
                  (case fetch_dataURL env (canvas_url fmt pixels) of
                     Inl e \<Rightarrow> Inl e
                   | Inr b \<Rightarrow>
                       pdfToImages_pages env pdf fmt (i + 1) (results @ [image_result fmt i b]))))
      else Inr results)"
  by pat_completeness auto
termination
  by (relation "measure (\<lambda>(env, pdf, fmt, i, results). numPages pdf + 1 - i)") auto

declare pdfToImages_pages.simps [simp del]

definition pdfToImages :: "pdf_env \<Rightarrow> state \<Rightarrow> artifact list promise" where
  "pdfToImages env st =
     (case files st of
        [] \<Rightarrow> Inl no_file
      | file # _ \<Rightarrow>
          (case file_bytes file of
             Inl e \<Rightarrow> Inl e
           | Inr arr \<Rightarrow>
               (case getDocument env arr of
                  Inl e \<Rightarrow> Inl e
                | Inr pdf \<Rightarrow> pdfToImages_pages env pdf (output_fmt env) 1 [])))"

section \<open>splitPDF (src/js/converters.js, lines 169-200)\<close>





text \<open>The pixels of page \<open>i\<close> at scale 1.0, when the page is delivered and renders.\<close>

definition page_pixels :: "pdf_doc \<Rightarrow> nat \<Rightarrow> nat list option" where
  "page_pixels pdf i =
     (case getPage pdf i of
        Inl e \<Rightarrow> None
      | Inr page \<Rightarrow> (case render page 1 of Inl e \<Rightarrow> None | Inr pixels \<Rightarrow> Some pixels))"

text \<open>The blob of page \<open>i\<close> in the format \<open>fmt\<close>, when moreover the data URL is fetched.\<close>

definition page_image :: "pdf_env \<Rightarrow> pdf_doc \<Rightarrow> string \<Rightarrow> nat \<Rightarrow> blob option" where
  "page_image env pdf fmt i =
     (case page_pixels pdf i of
        None \<Rightarrow> None
      | Some pixels \<Rightarrow>
          (case fetch_dataURL env (canvas_url fmt pixels) of Inl e \<Rightarrow> None | Inr b \<Rightarrow> Some b))"



lemma pdfToImages_pages_Inr:
  "pdfToImages_pages env pdf fmt i results = Inr rs \<Longrightarrow>
     rs = results @ map (\<lambda>k. image_result fmt k (the (page_image env pdf fmt k))) [i..<numPages pdf + 1]
     \<and> (\<forall>k. i \<le> k \<and> k \<le> numPages pdf \<longrightarrow> page_image env pdf fmt k \<noteq> None)"
proof (induction env pdf fmt i results rule: pdfToImages_pages.induct)
  case (1 env pdf fmt i results)
  show ?case
  proof (cases "i \<le> numPages pdf")
    case False
    with "1.prems" show ?thesis by (subst (asm) pdfToImages_pages.simps) auto
  next
    case True
    from "1.prems" True obtain page px b where pg: "getPage pdf i = Inr page" "render page 1 = Inr px"
      "fetch_dataURL env (canvas_url fmt px) = Inr b"
      and rec: "pdfToImages_pages env pdf fmt (i + 1) (results @ [image_result fmt i b]) = Inr rs"
      by (subst (asm) pdfToImages_pages.simps) (auto split: sum.splits)
    have px: "page_image env pdf fmt i = Some b"
      using pg by (simp add: page_image_def page_pixels_def)
    have up: "[i..<numPages pdf + 1] = i # [i + 1..<numPages pdf + 1]"
      using True by (simp add: upt_conv_Cons)
    from "1.IH" [OF True pg rec]
    have a: "rs = (results @ [image_result fmt i b])
               @ map (\<lambda>k. image_result fmt k (the (page_image env pdf fmt k))) [i + 1..<numPages pdf + 1]"
      and c: "\<forall>k. i + 1 \<le> k \<and> k \<le> numPages pdf \<longrightarrow> page_image env pdf fmt k \<noteq> None"
      by blast+
    have "rs = results @ map (\<lambda>k. image_result fmt k (the (page_image env pdf fmt k))) [i..<numPages pdf + 1]"
      using a by (simp only: up list.map append_assoc px option.sel append.simps)
    moreover have "\<forall>k. i \<le> k \<and> k \<le> numPages pdf \<longrightarrow> page_image env pdf fmt k \<noteq> None"
    proof (intro allI impI)
      fix k assume "i \<le> k \<and> k \<le> numPages pdf"
      then consider "k = i" | "i + 1 \<le> k \<and> k \<le> numPages pdf" by linarith
      then show "page_image env pdf fmt k \<noteq> None" using px c by cases auto
    qed
    ultimately show ?thesis by blast
  qed
qed











text \<open>
  Claim C4. Whenever \<^verbatim>\<open>pdfToImages\<close> returns, its results are in page order: there is one per
  page, and the result at index k is named \<^verbatim>\<open>sayfa_(k+1).fmt\<close> and holds the image fetched
  from the canvas on which page k + 1 was rendered. The pages are awaited one after the other,
  so no completion order enters the result.
\<close>

theorem pdfToImages_keeps_page_order:
  assumes "files st = f # fs" and "file_bytes f = Inr arr" and "getDocument env arr = Inr pdf"
    and "pdfToImages env st = Inr rs"
  shows "length rs = numPages pdf
         \<and> (\<forall>k < numPages pdf. \<exists>page pixels b.
               getPage pdf (k + 1) = Inr page \<and> render page 1 = Inr pixels
               \<and> fetch_dataURL env (canvas_url (output_fmt env) pixels) = Inr b
               \<and> rs ! k = \<lparr>art_name = ''sayfa_'' @ string_of_nat (k + 1) @ ''.'' @ output_fmt env,
                            art_blob = b\<rparr>)"
proof -
  have i: "pdfToImages_pages env pdf (output_fmt env) 1 [] = Inr rs"
    using assms by (simp add: pdfToImages_def)
  from pdfToImages_pages_Inr [OF i]
  have rs: "rs = map (\<lambda>k. image_result (output_fmt env) k
                    (the (page_image env pdf (output_fmt env) k))) [1..<numPages pdf + 1]"
    and ok: "\<forall>k. 1 \<le> k \<and> k \<le> numPages pdf \<longrightarrow> page_image env pdf (output_fmt env) k \<noteq> None"
    by simp_all
  have "\<exists>page pixels b.
          getPage pdf (k + 1) = Inr page \<and> render page 1 = Inr pixels
          \<and> fetch_dataURL env (canvas_url (output_fmt env) pixels) = Inr b
          \<and> rs ! k = \<lparr>art_name = ''sayfa_'' @ string_of_nat (k + 1) @ ''.'' @ output_fmt env,
                       art_blob = b\<rparr>" if k: "k < numPages pdf" for k
  proof -
    from k have "1 \<le> k + 1 \<and> k + 1 \<le> numPages pdf" by simp
    with ok have "page_image env pdf (output_fmt env) (k + 1) \<noteq> None" by blast
    then obtain b where b: "page_image env pdf (output_fmt env) (k + 1) = Some b" by blast
    then obtain page pixels where "getPage pdf (k + 1) = Inr page" "render page 1 = Inr pixels"
      "fetch_dataURL env (canvas_url (output_fmt env) pixels) = Inr b"
      by (auto simp: page_image_def page_pixels_def split: sum.splits option.splits)
    moreover have "rs ! k = image_result (output_fmt env) (k + 1) b"
      unfolding rs using k b by (simp add: nth_map_upt del: upt_Suc)
    ultimately show ?thesis by (auto simp: image_result_def)
  qed
  moreover have "length rs = numPages pdf" by (simp add: rs)
  ultimately show ?thesis by blast
qed

definition two_page_pdf :: pdf_doc where
  "two_page_pdf = \<lparr>numPages = 2,
     getPage = (\<lambda>i. Inr \<lparr>getTextContent = Inr [], render = (\<lambda>s. Inr [i])\<rparr>)\<rparr>"

definition two_pages :: state where
  "two_pages = \<lparr>files = [pdf_file ''x.pdf''], currentTool = ''split-pdf''\<rparr>"


definition two_page_images :: "artifact list" where
  "two_page_images =
     [\<lparr>art_name = ''sayfa_1.jpg'', art_blob = ImageBlob (CanvasURL [1] ''image/jpeg'' (85 / 100))\<rparr>,
      \<lparr>art_name = ''sayfa_2.jpg'', art_blob = ImageBlob (CanvasURL [2] ''image/jpeg'' (85 / 100))\<rparr>]"

lemma two_pages_load:
  "files two_pages = pdf_file ''x.pdf'' # []"
  "file_bytes (pdf_file ''x.pdf'') = Inr [37]"
  "getDocument (pdfjs two_page_pdf) [37] = Inr two_page_pdf"
  by (simp_all add: two_pages_def pdf_file_def pdfjs_def)


theorem pdfToImages_keeps_page_order_witness:
  "files two_pages = pdf_file ''x.pdf'' # []
   \<and> file_bytes (pdf_file ''x.pdf'') = Inr [37]
   \<and> getDocument (pdfjs two_page_pdf) [37] = Inr two_page_pdf
   \<and> pdfToImages (pdfjs two_page_pdf) two_pages = Inr two_page_images
   \<and> length two_page_images = numPages two_page_pdf"
proof -
  have i: "pdfToImages (pdfjs two_page_pdf) two_pages = Inr two_page_images" by code_simp
  from pdfToImages_keeps_page_order [OF two_pages_load i]
  have "length two_page_images = numPages two_page_pdf" by blast
  with two_pages_load i show ?thesis by blast
qed

section \<open>translatePDFBackend (src/js/processing.js, lines 129-178)\<close>

text \<open>
  The page and the backend are parameters: the values of the \<^verbatim>\<open>sourceLang\<close>, \<^verbatim>\<open>targetLang\<close>
  and \<^verbatim>\<open>translateFormat\<close> elements (\<open>None\<close> when the element is missing), \<^verbatim>\<open>BACKEND_URL\<close>, and
  \<^verbatim>\<open>fetch\<close>, which rejects or yields a response. Of a response the code reads \<^verbatim>\<open>ok\<close>, the
  body as JSON when the status is not OK (\<open>NotJson\<close> when \<^verbatim>\<open>response.json()\<close> rejects, which
  the code turns into an empty object; otherwise null, or a value with the text of its truthy
  \<^verbatim>\<open>error\<close> property if it has one), and the body as a blob otherwise. With no file selected,
  \<^verbatim>\<open>FormData.append\<close> sends the text \<^verbatim>\<open>undefined\<close> and only \<^verbatim>\<open>file.name\<close> raises.
\<close>

datatype json_body = NotJson | JsonNull | JsonValue "string option"

record response =
  resp_ok :: bool
  resp_json :: json_body
  resp_blob :: "nat list promise"

record request =
  req_url :: string
  req_method :: string
  form_file :: "js_file option"
  form_source :: string
  form_target :: string

record translate_env =
  sourceLang :: "string option"
  targetLang :: "string option"
  translateFormat :: "string option"
  BACKEND_URL :: string
  fetch :: "request \<Rightarrow> response promise"

definition backend_hatasi :: string where
  "backend_hatasi = ''Backend hatas'' @ [CHR 0xC4, CHR 0xB1]"

definition or_default :: "string option \<Rightarrow> string \<Rightarrow> string" where
  "or_default el d = (case el of Some v \<Rightarrow> v | None \<Rightarrow> d)"

definition translate_format :: "translate_env \<Rightarrow> string" where
  "translate_format env = or_default (translateFormat env) ''html''"

definition translate_endpoint :: "translate_env \<Rightarrow> string" where
  "translate_endpoint env = (if translate_format env = ''html'' then ''/translate-html'' else ''/translate'')"

definition translate_request :: "translate_env \<Rightarrow> state \<Rightarrow> request" where
  "translate_request env st =
     \<lparr>req_url = BACKEND_URL env @ translate_endpoint env, req_method = ''POST'',
      form_file = (case files st of [] \<Rightarrow> None | file # _ \<Rightarrow> Some file),
      form_source = or_default (sourceLang env) ''auto'',
      form_target = or_default (targetLang env) ''tr''\<rparr>"

fun backend_error :: "json_body \<Rightarrow> js_error" where
  "backend_error NotJson = Error backend_hatasi"
| "backend_error JsonNull = TypeError ''Cannot read properties of null (reading 'error')''"
| "backend_error (JsonValue None) = Error backend_hatasi"
| "backend_error (JsonValue (Some m)) = Error (if m = [] then backend_hatasi else m)"

definition translatePDFBackend :: "translate_env \<Rightarrow> state \<Rightarrow> artifact list promise" where
  "translatePDFBackend env st =
     (case fetch env (translate_request env st) of
        Inl e \<Rightarrow> Inl e
      | Inr response \<Rightarrow>
          if \<not> resp_ok response then Inl (backend_error (resp_json response))
          else
            (case resp_blob response of
               Inl e \<Rightarrow> Inl e
             | Inr body \<Rightarrow>
                 (let target = or_default (targetLang env) ''tr'';
                      ext = (if translate_format env = ''html'' then ''.html'' else ''.pdf'')
                  in case files st of
                       [] \<Rightarrow> Inl (TypeError ''Cannot read properties of undefined (reading 'name')'')
                     | file # _ \<Rightarrow>
                         Inr [\<lparr>art_name = replace (file_name file) ''.pdf'' (''_ceviri_'' @ target @ ext),
                               art_blob = BodyBlob body\<rparr>])))"

section \<open>processFiles (src/js/processing.js, lines 13-59)\<close>

text \<open>
  The function returns nothing; what it does is the sequence of its calls to the interface.
  Each tool is an asynchronous call whose outcome is a parameter: it returns results, raises,
  or never settles (\<open>None\<close>), and in the last case \<^verbatim>\<open>processFiles\<close> makes no further call.
  The calls a tool makes itself are part of the tool.
\<close>

datatype ui_call =
    ShowToast string string
  | GoToStep nat
  | UpdateProgress nat
  | ShowResults "artifact list"

type_synonym tool_run = "artifact list promise option"

record tool_runs =
  run_translatePDFBackend :: tool_run
  run_compressPDFBackend :: tool_run
  run_pdfToWordBackend :: tool_run
  run_pdfToExcelBackend :: tool_run
  run_pdfToImageBackend :: tool_run
  run_pdfToImagesBackend :: tool_run
  run_wordToPDF :: tool_run
  run_imagesToPDF :: tool_run
  run_pdfToImages :: tool_run
  run_mergePDFs :: tool_run
  run_splitPDF :: tool_run

definition run_tool :: "tool_runs \<Rightarrow> string \<Rightarrow> tool_run" where
  "run_tool runs tool =
     (if tool = ''translate'' then run_translatePDFBackend runs
      else if tool = ''compress-pdf'' then run_compressPDFBackend runs
      else if tool = ''pdf-to-word'' then run_pdfToWordBackend runs
      else if tool = ''pdf-to-excel'' then run_pdfToExcelBackend runs
      else if tool = ''pdf-to-image'' then run_pdfToImageBackend runs
      else if tool = ''pdf-to-images'' then run_pdfToImagesBackend runs
      else if tool = ''word-to-pdf'' then run_wordToPDF runs
      else if tool = ''jpg-to-pdf'' then run_imagesToPDF runs
      else if tool = ''pdf-to-jpg'' then run_pdfToImages runs
      else if tool = ''merge-pdf'' then run_mergePDFs runs
      else if tool = ''split-pdf'' then run_splitPDF runs
      else Some (Inr []))"

definition lutfen_dosya_secin :: string where
  "lutfen_dosya_secin = ''L'' @ [CHR 0xC3, CHR 0xBC] @ ''tfen dosya se'' @ [CHR 0xC3, CHR 0xA7] @ ''in!''"

definition tamamlandi :: string where
  "tamamlandi = ''Tamamland'' @ [CHR 0xC4, CHR 0xB1] @ ''!''"

definition processFiles :: "state \<Rightarrow> tool_runs \<Rightarrow> ui_call list" where
  "processFiles st runs =
     (if files st = [] then [ShowToast lutfen_dosya_secin ''error'']
      else [GoToStep 3, UpdateProgress 0] @
        (case run_tool runs (currentTool st) of
           None \<Rightarrow> []
         | Some (Inr results) \<Rightarrow> [ShowResults results, ShowToast tamamlandi ''success'']
         | Some (Inl error) \<Rightarrow> [ShowToast (''Hata: '' @ message error) ''error'', GoToStep 2]))"

text \<open>
  Claim C1, as the code has it. \<^verbatim>\<open>translatePDFBackend\<close> has one provider, the backend, and a
  failure of it is raised to the caller: when the request cannot be made the error of
  \<^verbatim>\<open>fetch\<close> is rethrown, and when the backend answers with a status that is not OK an error is
  thrown that carries the \<^verbatim>\<open>error\<close> text of the response body, or \<^verbatim>\<open>Backend hatasi\<close> (with a
  dotless i) when there is none. An artifact is returned only when the backend answered OK and
  its body was read, and the artifact then holds that body: the original text is never
  returned in its place, and there is no soft-failure marker.
\<close>

theorem translatePDFBackend_raises_backend_failure:
  "(\<forall>e. fetch env (translate_request env st) = Inl e \<longrightarrow> translatePDFBackend env st = Inl e)
   \<and> (\<forall>r. fetch env (translate_request env st) = Inr r \<and> \<not> resp_ok r \<longrightarrow>
          translatePDFBackend env st = Inl (backend_error (resp_json r)))
   \<and> (\<forall>arts. translatePDFBackend env st = Inr arts \<longrightarrow>
          (\<exists>r body. fetch env (translate_request env st) = Inr r \<and> resp_ok r
             \<and> resp_blob r = Inr body \<and> (\<forall>a \<in> set arts. art_blob a = BodyBlob body)))"
  by (auto simp: translatePDFBackend_def Let_def split: sum.splits list.splits if_splits)

definition unreachable_backend :: translate_env where
  "unreachable_backend = \<lparr>sourceLang = Some ''en'', targetLang = Some ''tr'',
     translateFormat = Some ''pdf'', BACKEND_URL = ''https://backend'',
     fetch = (\<lambda>req. Inl (TypeError ''Failed to fetch''))\<rparr>"

definition failing_backend :: translate_env where
  "failing_backend = \<lparr>sourceLang = Some ''en'', targetLang = Some ''tr'',
     translateFormat = Some ''pdf'', BACKEND_URL = ''https://backend'',
     fetch = (\<lambda>req. Inr \<lparr>resp_ok = False, resp_json = JsonValue None, resp_blob = Inr []\<rparr>)\<rparr>"

definition one_pdf :: state where
  "one_pdf = \<lparr>files = [pdf_file ''report.pdf''], currentTool = ''translate''\<rparr>"

theorem translatePDFBackend_raises_backend_failure_witness:
  "fetch unreachable_backend (translate_request unreachable_backend one_pdf)
      = Inl (TypeError ''Failed to fetch'')
   \<and> translatePDFBackend unreachable_backend one_pdf = Inl (TypeError ''Failed to fetch'')"
proof -
  have f: "fetch unreachable_backend (translate_request unreachable_backend one_pdf)
      = Inl (TypeError ''Failed to fetch'')"
    by (simp add: unreachable_backend_def)
  from translatePDFBackend_raises_backend_failure [of unreachable_backend one_pdf] f
  have "translatePDFBackend unreachable_backend one_pdf = Inl (TypeError ''Failed to fetch'')"
    by blast
  with f show ?thesis by simp
qed

text \<open>
  The claim as the specification states it, that a failure of every provider is never raised to
  the caller, fails on both failures of the backend: unreachable, and answering with an error
  status.
\<close>

theorem translatePDFBackend_hard_failure:
  "translatePDFBackend unreachable_backend one_pdf = Inl (TypeError ''Failed to fetch'')
   \<and> translatePDFBackend failing_backend one_pdf = Inl (Error backend_hatasi)"
  by (simp add: translatePDFBackend_def unreachable_backend_def failing_backend_def)

text \<open>The results shown and the error toasts raised among a list of calls.\<close>

fun shown_results :: "ui_call list \<Rightarrow> artifact list list" where
  "shown_results [] = []"
| "shown_results (ShowResults rs # cs) = rs # shown_results cs"
| "shown_results (c # cs) = shown_results cs"

fun error_toasts :: "ui_call list \<Rightarrow> string list" where
  "error_toasts [] = []"
| "error_toasts (ShowToast m kind # cs) = (if kind = ''error'' then m # error_toasts cs else error_toasts cs)"
| "error_toasts (c # cs) = error_toasts cs"

text \<open>
  Claim C2, as the code has it. \<^verbatim>\<open>processFiles\<close> rejects an empty selection with one error toast
  before any work. Otherwise every error the selected tool raises, whatever its kind (an
  unreadable document as much as an unreachable or failing backend), ends the request: no
  results are shown, exactly one error toast \<^verbatim>\<open>Hata: \<close> followed by the message of the error is
  raised, and the interface goes back to step 2. A tool that returns has its results shown
  exactly once and raises no error toast. A tool that never settles is outside this statement.
\<close>

theorem processFiles_ends_in_results_or_error:
  "(files st = [] \<longrightarrow> processFiles st runs = [ShowToast lutfen_dosya_secin ''error''])
   \<and> (\<forall>e. files st \<noteq> [] \<and> run_tool runs (currentTool st) = Some (Inl e) \<longrightarrow>
          shown_results (processFiles st runs) = []
          \<and> error_toasts (processFiles st runs) = [''Hata: '' @ message e]
          \<and> last (processFiles st runs) = GoToStep 2)
   \<and> (\<forall>rs. files st \<noteq> [] \<and> run_tool runs (currentTool st) = Some (Inr rs) \<longrightarrow>
          shown_results (processFiles st runs) = [rs]
          \<and> error_toasts (processFiles st runs) = [])"
  by (simp add: processFiles_def)

definition idle_runs :: tool_runs where
  "idle_runs = \<lparr>run_translatePDFBackend = None, run_compressPDFBackend = None,
     run_pdfToWordBackend = None, run_pdfToExcelBackend = None, run_pdfToImageBackend = None,
     run_pdfToImagesBackend = None, run_wordToPDF = None, run_imagesToPDF = None,
     run_pdfToImages = None, run_mergePDFs = None, run_splitPDF = None\<rparr>"

theorem processFiles_ends_in_results_or_error_witness:
  "files one_pdf \<noteq> []
   \<and> run_tool (idle_runs\<lparr>run_translatePDFBackend := Some (Inr [])\<rparr>) (currentTool one_pdf) = Some (Inr [])
   \<and> shown_results (processFiles one_pdf (idle_runs\<lparr>run_translatePDFBackend := Some (Inr [])\<rparr>)) = [[]]
   \<and> error_toasts (processFiles one_pdf (idle_runs\<lparr>run_translatePDFBackend := Some (Inr [])\<rparr>)) = []"
proof -
  have f: "files one_pdf \<noteq> []" by (simp add: one_pdf_def)
  have r: "run_tool (idle_runs\<lparr>run_translatePDFBackend := Some (Inr [])\<rparr>) (currentTool one_pdf)
             = Some (Inr [])"
    by (simp add: run_tool_def one_pdf_def)
  from processFiles_ends_in_results_or_error
         [of one_pdf "idle_runs\<lparr>run_translatePDFBackend := Some (Inr [])\<rparr>"] f r
  show ?thesis by blast
qed

text \<open>
  The claim as the specification states it, that only input errors end a request with an error,
  fails: with a readable file selected and the backend unreachable, or answering with an error
  status, the translation request ends with the error toast and no results.
\<close>

theorem processFiles_fails_on_backend_error:
  "processFiles one_pdf
     (idle_runs\<lparr>run_translatePDFBackend := Some (translatePDFBackend unreachable_backend one_pdf)\<rparr>)
     = [GoToStep 3, UpdateProgress 0, ShowToast ''Hata: Failed to fetch'' ''error'', GoToStep 2]
   \<and> processFiles one_pdf
     (idle_runs\<lparr>run_translatePDFBackend := Some (translatePDFBackend failing_backend one_pdf)\<rparr>)
     = [GoToStep 3, UpdateProgress 0, ShowToast (''Hata: '' @ backend_hatasi) ''error'', GoToStep 2]"
  by (simp add: processFiles_def run_tool_def one_pdf_def translatePDFBackend_def
        unreachable_backend_def failing_backend_def)

definition html_backend :: translate_env where
  "html_backend = \<lparr>sourceLang = Some ''en'', targetLang = Some ''tr'',
     translateFormat = Some ''html'', BACKEND_URL = ''https://backend'',
     fetch = (\<lambda>req. if req_url req = ''https://backend/translate-html''
                     then Inr \<lparr>resp_ok = True, resp_json = NotJson, resp_blob = Inr [60]\<rparr>
                     else Inl (TypeError ''Failed to fetch''))\<rparr>"

text \<open>
  Claim C6 at two file names. In the markup mode the request goes to \<^verbatim>\<open>/translate-html\<close>, as
  claimed, but the name of the artifact does not end in \<^verbatim>\<open>.html\<close>: \<^verbatim>\<open>replace('.pdf', ...)\<close>
  rewrites the first \<^verbatim>\<open>.pdf\<close> of the name, wherever it is, and nothing when the
  extension is written in capitals. (\<^verbatim>\<open>wordToPDF\<close> anchors its pattern at the end of the name
  and ignores case.)
\<close>

theorem translatePDFBackend_html_name:
  "translatePDFBackend html_backend \<lparr>files = [pdf_file ''scan.pdf.pdf''], currentTool = ''translate''\<rparr>
     = Inr [\<lparr>art_name = ''scan_ceviri_tr.html.pdf'', art_blob = BodyBlob [60]\<rparr>]
   \<and> translatePDFBackend html_backend \<lparr>files = [pdf_file ''report.PDF''], currentTool = ''translate''\<rparr>
     = Inr [\<lparr>art_name = ''report.PDF'', art_blob = BodyBlob [60]\<rparr>]"
  by code_simp

section \<open>The Layout Fitter's font size (specification, section 4.3)\<close>












end
